theory Spec2Isabelle
  imports Main "HOL-Library.Word"
begin

section \<open>The MIPS DAG-to-DAG instruction selector (MipsISelDAGToDAG.cpp)\<close>

text \<open>
  Modelled from the spec: the node classes are declared in headers outside the source
  file. The spec's operation node (section 3) has an opcode tag, an ordered sequence of
  operand references, one or more result value types, and an optional payload (embedded
  constant, frame-slot index or symbolic reference). The opcode is a number (the source
  reads it into \<^verbatim>\<open>unsigned Opcode\<close> and compares it with \<open>\<le>\<close> and \<open><\<close>); an
  operand is a node together with the number of the result that is used
  (\<^verbatim>\<open>SDOperand(MulNode, 0)\<close>, \<^verbatim>\<open>N.Val\<close>).
\<close>

subsection \<open>Nodes and operands\<close>

datatype ValueType = i32 | Flag | OtherVT nat

datatype Payload =
    NoPayload
  | FrameIndexPayload int
  | ConstantPayload "64 word"
  | SymbolPayload string

datatype SDNode =
  SDNode (getOpcode: nat) (OperandList: "SDOperand list")
         (ValueList: "ValueType list") (getPayload: Payload)
and SDOperand =
  SDOperand (Val: SDNode) (ResNo: nat)

text \<open>
  The enumerators the source file names. Their numeric values are fixed by headers
  (namespace ISD, the generated instruction list, namespace MipsISD) that the file
  includes; they are taken as a parameter, field \<open>ISD_ADD\<close> standing for
  \<^verbatim>\<open>ISD::ADD\<close>, \<open>Mips_MULT\<close> for \<^verbatim>\<open>Mips::MULT\<close>, and so on.
\<close>

record Enums =
  ISD_FrameIndex :: nat
  ISD_TargetFrameIndex :: nat
  ISD_Constant :: nat
  ISD_TargetConstant :: nat
  ISD_TargetExternalSymbol :: nat
  ISD_TargetGlobalAddress :: nat
  ISD_ADD :: nat
  ISD_MULHS :: nat
  ISD_MULHU :: nat
  ISD_SDIV :: nat
  ISD_UDIV :: nat
  ISD_SREM :: nat
  ISD_UREM :: nat
  ISD_BUILTIN_OP_END :: nat
  MipsISD_FIRST_NUMBER :: nat
  Mips_MULT :: nat
  Mips_MULTu :: nat
  Mips_DIV :: nat
  Mips_DIVu :: nat
  Mips_MFHI :: nat
  Mips_MFLO :: nat

text \<open>
  What a C++ enumeration guarantees of the builtin opcodes the selector tests: they
  are pairwise different and all lie below \<^verbatim>\<open>ISD::BUILTIN_OP_END\<close>.
\<close>

definition builtin_ops :: "Enums \<Rightarrow> nat list" where
  "builtin_ops E =
     [ISD_FrameIndex E, ISD_TargetFrameIndex E, ISD_Constant E, ISD_TargetConstant E,
      ISD_TargetExternalSymbol E, ISD_TargetGlobalAddress E, ISD_ADD E,
      ISD_MULHS E, ISD_MULHU E, ISD_SDIV E, ISD_UDIV E, ISD_SREM E, ISD_UREM E]"

definition wf_enums :: "Enums \<Rightarrow> bool" where
  "wf_enums E \<longleftrightarrow>
     distinct (builtin_ops E) \<and> list_all (\<lambda>c. c < ISD_BUILTIN_OP_END E) (builtin_ops E)"

text \<open>One admissible numbering, used to run the definitions on concrete nodes.\<close>

definition sample_enums :: Enums where
  "sample_enums =
     \<lparr>ISD_FrameIndex = 1, ISD_TargetFrameIndex = 2, ISD_Constant = 3,
      ISD_TargetConstant = 4, ISD_TargetExternalSymbol = 5,
      ISD_TargetGlobalAddress = 6, ISD_ADD = 7, ISD_MULHS = 8, ISD_MULHU = 9,
      ISD_SDIV = 10, ISD_UDIV = 11, ISD_SREM = 12, ISD_UREM = 13,
      ISD_BUILTIN_OP_END = 100, MipsISD_FIRST_NUMBER = 200,
      Mips_MULT = 20, Mips_MULTu = 21, Mips_DIV = 22, Mips_DIVu = 23,
      Mips_MFHI = 24, Mips_MFLO = 25\<rparr>"

subsection \<open>Node accessors\<close>

text \<open>
  Modelled from the spec: the accessors are declared with the node classes. Reading an
  operand the node does not have is the fatal case of the spec's section 7 (operands of
  the wrong arity); \<^verbatim>\<open>getOperand(Num)\<close> past the end is the error value.
\<close>

datatype error = InvalidChild

definition getOperand :: "SDNode \<Rightarrow> nat \<Rightarrow> error + SDOperand" where
  "getOperand N Num =
     (if Num < length (OperandList N) then Inr (OperandList N ! Num) else Inl InvalidChild)"

text \<open>
  Modelled from the spec: the class tests behind \<^verbatim>\<open>dyn_cast<FrameIndexSDNode>\<close> and
  \<^verbatim>\<open>dyn_cast<ConstantSDNode>\<close> are declared with the node classes. Whether a node
  denotes a frame-slot reference or a constant is decided by its opcode; the plain and
  the target-concrete form of the leaf both belong to the class. The getters read the
  payload and are called by the source only after the cast has succeeded.
\<close>

definition FrameIndexSDNode_classof :: "Enums \<Rightarrow> SDNode \<Rightarrow> bool" where
  "FrameIndexSDNode_classof E N \<longleftrightarrow>
     getOpcode N = ISD_FrameIndex E \<or> getOpcode N = ISD_TargetFrameIndex E"

definition ConstantSDNode_classof :: "Enums \<Rightarrow> SDNode \<Rightarrow> bool" where
  "ConstantSDNode_classof E N \<longleftrightarrow>
     getOpcode N = ISD_Constant E \<or> getOpcode N = ISD_TargetConstant E"

definition getIndex :: "SDNode \<Rightarrow> int" where
  "getIndex N = (case getPayload N of FrameIndexPayload FI \<Rightarrow> FI | _ \<Rightarrow> 0)"

definition getValue :: "SDNode \<Rightarrow> 64 word" where
  "getValue N = (case getPayload N of ConstantPayload v \<Rightarrow> v | _ \<Rightarrow> 0)"

definition getValueType :: "SDNode \<Rightarrow> nat \<Rightarrow> ValueType" where
  "getValueType N R = (if R < length (ValueList N) then ValueList N ! R else OtherVT 0)"

subsection \<open>Node construction (the calls on CurDAG)\<close>

text \<open>
  Modelled from the spec: the node factories belong to the graph class, outside the
  source file. \<^verbatim>\<open>getTargetFrameIndex(FI, VT)\<close> and \<^verbatim>\<open>getTargetConstant(Val, VT)\<close>
  give the target-concrete leaf holding the index or value, of the given type (the
  file's own comment on getI32Imm: a target constant with the specified value, of type
  i32). \<^verbatim>\<open>getTargetNode(Opc, VT, Ops)\<close> gives a machine node: the instruction number
  is placed after the builtin opcodes, the node has the one result type \<open>VT\<close> and the
  operands as given.
\<close>

definition getTargetFrameIndex :: "Enums \<Rightarrow> int \<Rightarrow> ValueType \<Rightarrow> SDOperand" where
  "getTargetFrameIndex E FI VT =
     SDOperand (SDNode (ISD_TargetFrameIndex E) [] [VT] (FrameIndexPayload FI)) 0"

definition getTargetConstant :: "Enums \<Rightarrow> 64 word \<Rightarrow> ValueType \<Rightarrow> SDOperand" where
  "getTargetConstant E v VT =
     SDOperand (SDNode (ISD_TargetConstant E) [] [VT] (ConstantPayload v)) 0"

definition getTargetNode :: "Enums \<Rightarrow> nat \<Rightarrow> ValueType \<Rightarrow> SDOperand list \<Rightarrow> SDNode" where
  "getTargetNode E Opc VT Ops = SDNode (ISD_BUILTIN_OP_END E + Opc) Ops [VT] NoPayload"

subsection \<open>The immediate predicate\<close>

text \<open>
  Modelled from the spec: \<^verbatim>\<open>Predicate_immSExt16\<close> is generated from the target
  description and is not part of the source file. The spec's rule 3 asks that the
  constant fit the signed offset-immediate range, 16 bits wide on this target. The
  constant is read as a signed number of its own width (32 bits for an i32 node, the
  full 64 bits otherwise).
\<close>

definition signedValue :: "SDNode \<Rightarrow> int" where
  "signedValue CN =
     (if getValueType CN 0 = i32 then sint (ucast (getValue CN) :: 32 word)
      else sint (getValue CN))"

definition Predicate_immSExt16 :: "SDNode \<Rightarrow> bool" where
  "Predicate_immSExt16 CN \<longleftrightarrow> - (2 ^ 15) \<le> signedValue CN \<and> signedValue CN < 2 ^ 15"

subsection \<open>SelectAddr\<close>

text \<open>
  The function returns a flag and writes two reference parameters. The result record
  holds the flag and the two references by position: \<open>ref3\<close> is the third parameter,
  \<open>ref4\<close> the fourth. When the function returns false the references keep the values
  they had at the call.

  The definition (line 129) names the third parameter \<^verbatim>\<open>Offset\<close> and the fourth
  \<^verbatim>\<open>Base\<close>; the declaration in the class (lines 83-84) names the third
  \<^verbatim>\<open>Base\<close> and the fourth \<^verbatim>\<open>Offset\<close>.
\<close>

record AddrResult =
  ret :: bool
  ref3 :: SDOperand
  ref4 :: SDOperand

definition Offset_of :: "AddrResult \<Rightarrow> SDOperand" where
  "Offset_of r = ref3 r"

definition Base_of :: "AddrResult \<Rightarrow> SDOperand" where
  "Base_of r = ref4 r"

definition declared_Base :: "AddrResult \<Rightarrow> SDOperand" where
  "declared_Base r = ref3 r"

definition declared_Offset :: "AddrResult \<Rightarrow> SDOperand" where
  "declared_Offset r = ref4 r"

definition SelectAddr ::
  "Enums \<Rightarrow> SDOperand \<Rightarrow> SDOperand \<Rightarrow> SDOperand \<Rightarrow> SDOperand \<Rightarrow> error + AddrResult" where
  "SelectAddr E Op Addr Offset Base =
     (if FrameIndexSDNode_classof E (Val Addr) then
        Inr \<lparr>ret = True,
             ref3 = getTargetConstant E 0 i32,
             ref4 = getTargetFrameIndex E (getIndex (Val Addr)) i32\<rparr>
      else if getOpcode (Val Addr) = ISD_TargetExternalSymbol E \<or>
              getOpcode (Val Addr) = ISD_TargetGlobalAddress E then
        Inr \<lparr>ret = False, ref3 = Offset, ref4 = Base\<rparr>
      else
        (let fallback = Inr \<lparr>ret = True, ref3 = getTargetConstant E 0 i32, ref4 = Addr\<rparr>
         in if getOpcode (Val Addr) = ISD_ADD E then
              (case getOperand (Val Addr) 1 of
                 Inl e \<Rightarrow> Inl e
               | Inr Op1 \<Rightarrow>
                   if ConstantSDNode_classof E (Val Op1) \<and> Predicate_immSExt16 (Val Op1) then
                     (case getOperand (Val Addr) 0 of
                        Inl e \<Rightarrow> Inl e
                      | Inr Op0 \<Rightarrow>
                          Inr \<lparr>ret = True,
                               ref3 = getTargetConstant E (getValue (Val Op1)) i32,
                               ref4 = (if FrameIndexSDNode_classof E (Val Op0)
                                       then getTargetFrameIndex E (getIndex (Val Op0)) i32
                                       else Op0)\<rparr>)
                   else fallback)
            else fallback))"

subsection \<open>The selector's state\<close>

text \<open>
  \<open>Indent\<close> is the debug field of the class (\<^verbatim>\<open>unsigned\<close>, present when NDEBUG is
  not defined); \<open>DOUT\<close> is what has been written to the debug stream; \<open>CurDAG\<close> is the
  graph being selected; \<open>calls\<close> is the journal, in order, of the operands handed to
  \<^verbatim>\<open>AddToISelQueue\<close> and of the machine nodes built by \<^verbatim>\<open>getTargetNode\<close>.

  Modelled from the spec: \<^verbatim>\<open>AddToISelQueue\<close> is generated with the matcher. The
  queue is an external bookkeeping sink (section 6) whose contract is that an operand is
  registered before an instruction using it is built; a call is an entry of the journal.
  The leaves made by SelectAddr are shared by the graph and are not journalled.
\<close>

datatype dout = Spaces "32 word" | Text string | Newline | NodeDump SDNode | BlockDump

datatype call = Queued SDOperand | Built SDNode

record SelectionDAG =
  Root :: SDOperand
  AllNodes :: "SDNode list"

record ISel =
  Indent :: "32 word"
  DOUT :: "dout list"
  CurDAG :: SelectionDAG
  calls :: "call list"

definition AddToISelQueue :: "SDOperand \<Rightarrow> ISel \<Rightarrow> ISel" where
  "AddToISelQueue N st = st\<lparr>calls := calls st @ [Queued N]\<rparr>"

definition CurDAG_getTargetNode ::
  "Enums \<Rightarrow> nat \<Rightarrow> ValueType \<Rightarrow> SDOperand list \<Rightarrow> ISel \<Rightarrow> SDNode \<times> ISel" where
  "CurDAG_getTargetNode E Opc VT Ops st =
     (let n = getTargetNode E Opc VT Ops
      in (n, st\<lparr>CurDAG := (CurDAG st)\<lparr>AllNodes := AllNodes (CurDAG st) @ [n]\<rparr>,
                calls := calls st @ [Built n]\<rparr>))"

subsection \<open>Select\<close>

text \<open>
  \<open>NDEBUG\<close> says whether the build defines the macro: the blocks under
  \<^verbatim>\<open>#ifndef NDEBUG\<close> run when it is False. \<open>SelectCode\<close> is the generated matcher
  (\<^verbatim>\<open>MipsGenDAGISel.inc\<close>), taken as a parameter. A NULL result is \<open>None\<close>.
\<close>

definition Select ::
  "Enums \<Rightarrow> (SDOperand \<Rightarrow> ISel \<Rightarrow> SDNode option \<times> ISel) \<Rightarrow> bool \<Rightarrow>
   SDOperand \<Rightarrow> ISel \<Rightarrow> error + (SDNode option \<times> ISel)" where
  "Select E SelectCode NDEBUG N st =
     (let Node = Val N;
          Opcode = getOpcode Node;
          st1 = (if NDEBUG then st
                 else st\<lparr>DOUT := DOUT st @ [Spaces (Indent st), Text ''Selecting: '',
                                             NodeDump Node, Newline],
                         Indent := Indent st + 2\<rparr>)
      in
      if ISD_BUILTIN_OP_END E \<le> Opcode \<and> Opcode < MipsISD_FIRST_NUMBER E then
        Inr (None,
             if NDEBUG then st1
             else st1\<lparr>DOUT := DOUT st1 @ [Spaces (Indent st1 - 2), Text ''== '',
                                           NodeDump Node, Newline],
                      Indent := Indent st1 - 2\<rparr>)
      else if Opcode = ISD_MULHS E \<or> Opcode = ISD_MULHU E then
        (case getOperand Node 0 of Inl e \<Rightarrow> Inl e | Inr MulOp1 \<Rightarrow>
         case getOperand Node 1 of Inl e \<Rightarrow> Inl e | Inr MulOp2 \<Rightarrow>
           let st2 = AddToISelQueue MulOp1 st1;
               st3 = AddToISelQueue MulOp2 st2;
               MulOp = (if Opcode = ISD_MULHU E then Mips_MULTu E else Mips_MULT E);
               (MulNode, st4) = CurDAG_getTargetNode E MulOp Flag [MulOp1, MulOp2] st3;
               MFInFlag = SDOperand MulNode 0;
               (Res, st5) = CurDAG_getTargetNode E (Mips_MFHI E) i32 [MFInFlag] st4
           in Inr (Some Res, st5))
      else if Opcode = ISD_SDIV E \<or> Opcode = ISD_UDIV E then
        (case getOperand Node 0 of Inl e \<Rightarrow> Inl e | Inr DivOp1 \<Rightarrow>
         case getOperand Node 1 of Inl e \<Rightarrow> Inl e | Inr DivOp2 \<Rightarrow>
           let st2 = AddToISelQueue DivOp1 st1;
               st3 = AddToISelQueue DivOp2 st2;
               DivOp = (if Opcode = ISD_SDIV E then Mips_DIV E else Mips_DIVu E);
               (DivNode, st4) = CurDAG_getTargetNode E DivOp Flag [DivOp1, DivOp2] st3;
               MFInFlag = SDOperand DivNode 0;
               (Res, st5) = CurDAG_getTargetNode E (Mips_MFLO E) i32 [MFInFlag] st4
           in Inr (Some Res, st5))
      else if Opcode = ISD_SREM E \<or> Opcode = ISD_UREM E then
        (case getOperand Node 0 of Inl e \<Rightarrow> Inl e | Inr RemOp1 \<Rightarrow>
         case getOperand Node 1 of Inl e \<Rightarrow> Inl e | Inr RemOp2 \<Rightarrow>
           let st2 = AddToISelQueue RemOp1 st1;
               st3 = AddToISelQueue RemOp2 st2;
               RemOp = (if Opcode = ISD_SREM E then Mips_DIV E else Mips_DIVu E);
               (RemNode, st4) = CurDAG_getTargetNode E RemOp Flag [RemOp1, RemOp2] st3;
               MFInFlag = SDOperand RemNode 0;
               (Res, st5) = CurDAG_getTargetNode E (Mips_MFHI E) i32 [MFInFlag] st4
           in Inr (Some Res, st5))
      else
        (let (ResNode, st2) = SelectCode N st1
         in Inr (ResNode,
                 if NDEBUG then st2
                 else st2\<lparr>DOUT := DOUT st2 @
                             [Spaces (Indent st2 - 2), Text ''=> '',
                              NodeDump (if ResNode = None \<or> ResNode = Some (Val N)
                                        then Val N else the ResNode),
                              Newline],
                          Indent := Indent st2 - 2\<rparr>)))"

subsection \<open>InstructionSelectBasicBlock\<close>

text \<open>
  The graph \<^verbatim>\<open>SD\<close> handed to the driver is the one \<^verbatim>\<open>CurDAG\<close> points to.
  \<^verbatim>\<open>SelectRoot\<close> is generated with the matcher; \<^verbatim>\<open>RemoveDeadNodes\<close> is a method
  of the graph and \<^verbatim>\<open>ScheduleAndEmitDAG\<close> one of the base class: the three are
  parameters. The driver returns what the scheduler emits, together with the
  selector's state at the end.
\<close>

definition getRoot :: "SelectionDAG \<Rightarrow> SDOperand" where
  "getRoot SD = Root SD"

definition setRoot :: "SDOperand \<Rightarrow> SelectionDAG \<Rightarrow> SelectionDAG" where
  "setRoot N SD = SD\<lparr>Root := N\<rparr>"

definition InstructionSelectBasicBlock ::
  "(SDOperand \<Rightarrow> ISel \<Rightarrow> SDOperand \<times> ISel) \<Rightarrow> (SelectionDAG \<Rightarrow> SelectionDAG) \<Rightarrow>
   (SelectionDAG \<Rightarrow> 'mc) \<Rightarrow> bool \<Rightarrow> ISel \<Rightarrow> 'mc \<times> ISel" where
  "InstructionSelectBasicBlock SelectRoot RemoveDeadNodes ScheduleAndEmitDAG NDEBUG st =
     (let st1 = (if NDEBUG then st
                 else st\<lparr>DOUT := DOUT st @
                            [BlockDump, Text ''===== Instruction selection begins:'', Newline],
                         Indent := 0\<rparr>);
          (NewRoot, st2) = SelectRoot (getRoot (CurDAG st1)) st1;
          st3 = st2\<lparr>CurDAG := setRoot NewRoot (CurDAG st2)\<rparr>;
          st4 = (if NDEBUG then st3
                 else st3\<lparr>DOUT := DOUT st3 @
                            [Text ''===== Instruction selection ends:'', Newline]\<rparr>);
          st5 = st4\<lparr>CurDAG := RemoveDeadNodes (CurDAG st4)\<rparr>
      in (ScheduleAndEmitDAG (CurDAG st5), st5))"

section \<open>Notions used to state the properties\<close>

subsection \<open>The special operations and what Select builds for them\<close>

definition special_ops :: "Enums \<Rightarrow> nat list" where
  "special_ops E = [ISD_MULHS E, ISD_MULHU E, ISD_SDIV E, ISD_UDIV E, ISD_SREM E, ISD_UREM E]"

text \<open>
  The instruction numbers the three switch cases choose, read off the source: the case
  labels in the order of the switch, then the conditional inside the case.
\<close>

definition producer_of :: "Enums \<Rightarrow> nat \<Rightarrow> nat" where
  "producer_of E Opcode =
     (if Opcode = ISD_MULHS E \<or> Opcode = ISD_MULHU E then
        (if Opcode = ISD_MULHU E then Mips_MULTu E else Mips_MULT E)
      else if Opcode = ISD_SDIV E \<or> Opcode = ISD_UDIV E then
        (if Opcode = ISD_SDIV E then Mips_DIV E else Mips_DIVu E)
      else (if Opcode = ISD_SREM E then Mips_DIV E else Mips_DIVu E))"

definition consumer_of :: "Enums \<Rightarrow> nat \<Rightarrow> nat" where
  "consumer_of E Opcode =
     (if Opcode = ISD_MULHS E \<or> Opcode = ISD_MULHU E then Mips_MFHI E
      else if Opcode = ISD_SDIV E \<or> Opcode = ISD_UDIV E then Mips_MFLO E
      else Mips_MFHI E)"

text \<open>The debug block at the entry of Select, and the one before a return.\<close>

definition prologue :: "bool \<Rightarrow> SDNode \<Rightarrow> ISel \<Rightarrow> ISel" where
  "prologue NDEBUG Node st =
     (if NDEBUG then st
      else st\<lparr>DOUT := DOUT st @ [Spaces (Indent st), Text ''Selecting: '', NodeDump Node, Newline],
              Indent := Indent st + 2\<rparr>)"

definition epilogue :: "bool \<Rightarrow> string \<Rightarrow> SDNode \<Rightarrow> ISel \<Rightarrow> ISel" where
  "epilogue NDEBUG tag Node st =
     (if NDEBUG then st
      else st\<lparr>DOUT := DOUT st @ [Spaces (Indent st - 2), Text tag, NodeDump Node, Newline],
              Indent := Indent st - 2\<rparr>)"

text \<open>
  The state after a special operation with operands \<open>A\<close> and \<open>B\<close> has been lowered to
  the producer \<open>P\<close> and the consumer \<open>C\<close>, and the lowering as a whole.
\<close>

definition built :: "SDNode \<Rightarrow> SDNode \<Rightarrow> SDOperand \<Rightarrow> SDOperand \<Rightarrow> ISel \<Rightarrow> ISel" where
  "built P C A B st =
     st\<lparr>CurDAG := (CurDAG st)\<lparr>AllNodes := AllNodes (CurDAG st) @ [P, C]\<rparr>,
        calls := calls st @ [Queued A, Queued B, Built P, Built C]\<rparr>"

definition lowering ::
  "Enums \<Rightarrow> nat \<Rightarrow> SDNode \<Rightarrow> ISel \<Rightarrow> error + (SDNode option \<times> ISel)" where
  "lowering E Opcode Node st1 =
     (case getOperand Node 0 of Inl e \<Rightarrow> Inl e | Inr A \<Rightarrow>
      case getOperand Node 1 of Inl e \<Rightarrow> Inl e | Inr B \<Rightarrow>
        (let P = getTargetNode E (producer_of E Opcode) Flag [A, B];
             C = getTargetNode E (consumer_of E Opcode) i32 [SDOperand P 0]
         in Inr (Some C, built P C A B st1)))"

text \<open>
  The chain of the spec's table: a consumer yielding an i32 whose only operand is
  result 0 of a producer that yields a flag and reads \<open>A\<close> and \<open>B\<close>.
\<close>

definition two_instruction_chain ::
  "Enums \<Rightarrow> nat \<Rightarrow> nat \<Rightarrow> SDOperand \<Rightarrow> SDOperand \<Rightarrow> SDNode" where
  "two_instruction_chain E Producer Consumer A B =
     getTargetNode E Consumer i32 [SDOperand (getTargetNode E Producer Flag [A, B]) 0]"

definition returned_node :: "error + (SDNode option \<times> ISel) \<Rightarrow> SDNode option" where
  "returned_node r = (case r of Inl e \<Rightarrow> None | Inr (n, st) \<Rightarrow> n)"

text \<open>
  A journal is in order when every machine node it builds uses, of the operands
  \<open>Ops\<close> of the node being selected, only those queued earlier in the journal.
\<close>

fun queued_first :: "SDOperand list \<Rightarrow> SDOperand list \<Rightarrow> call list \<Rightarrow> bool" where
  "queued_first Ops seen [] = True"
| "queued_first Ops seen (Queued x # cs) = queued_first Ops (x # seen) cs"
| "queued_first Ops seen (Built n # cs) =
     (list_all (\<lambda>x. x \<in> set Ops \<longrightarrow> x \<in> set seen) (OperandList n) \<and>
      queued_first Ops seen cs)"

subsection \<open>What a run leaves behind apart from the debug fields\<close>

definition observable ::
  "error + (SDNode option \<times> ISel) \<Rightarrow> error + (SDNode option \<times> SelectionDAG \<times> call list)" where
  "observable r = (case r of Inl e \<Rightarrow> Inl e | Inr (n, s) \<Rightarrow> Inr (n, CurDAG s, calls s))"

definition debug_insensitive :: "(SDOperand \<Rightarrow> ISel \<Rightarrow> SDNode option \<times> ISel) \<Rightarrow> bool" where
  "debug_insensitive SelectCode \<longleftrightarrow>
     (\<forall>M s i d.
        fst (SelectCode M (s\<lparr>Indent := i, DOUT := d\<rparr>)) = fst (SelectCode M s) \<and>
        CurDAG (snd (SelectCode M (s\<lparr>Indent := i, DOUT := d\<rparr>))) =
          CurDAG (snd (SelectCode M s)) \<and>
        calls (snd (SelectCode M (s\<lparr>Indent := i, DOUT := d\<rparr>))) =
          calls (snd (SelectCode M s)))"

definition trace_begin :: "bool \<Rightarrow> ISel \<Rightarrow> ISel" where
  "trace_begin NDEBUG st =
     (if NDEBUG then st
      else st\<lparr>DOUT := DOUT st @
                 [BlockDump, Text ''===== Instruction selection begins:'', Newline],
              Indent := 0\<rparr>)"

subsection \<open>Concrete nodes and collaborators for running the definitions\<close>

definition leaf :: "nat \<Rightarrow> SDOperand" where
  "leaf k = SDOperand (SDNode 50 [] [i32] (SymbolPayload [])) k"

definition binop :: "nat \<Rightarrow> SDOperand" where
  "binop Opc = SDOperand (SDNode Opc [leaf 0, leaf 1] [i32] NoPayload) 0"

definition machine_node :: SDOperand where
  "machine_node = SDOperand (SDNode 120 [leaf 0, leaf 1] [i32] NoPayload) 0"

definition frame_slot :: "int \<Rightarrow> SDOperand" where
  "frame_slot k =
     SDOperand (SDNode (ISD_FrameIndex sample_enums) [] [i32] (FrameIndexPayload k)) 0"

definition const_node :: "64 word \<Rightarrow> SDOperand" where
  "const_node v = SDOperand (SDNode (ISD_Constant sample_enums) [] [i32] (ConstantPayload v)) 0"

definition add_node :: "SDOperand \<Rightarrow> SDOperand \<Rightarrow> SDOperand" where
  "add_node x y = SDOperand (SDNode (ISD_ADD sample_enums) [x, y] [i32] NoPayload) 0"

definition external_symbol :: SDOperand where
  "external_symbol =
     SDOperand (SDNode (ISD_TargetExternalSymbol sample_enums) [] [i32]
                  (SymbolPayload ''memcpy'')) 0"

definition no_match :: "SDOperand \<Rightarrow> ISel \<Rightarrow> SDNode option \<times> ISel" where
  "no_match N st = (None, st)"

definition st0 :: ISel where
  "st0 = \<lparr>Indent = 0, DOUT = [], CurDAG = \<lparr>Root = binop 10, AllNodes = []\<rparr>, calls = []\<rparr>"

text \<open>
  A stand-in for the generated \<^verbatim>\<open>SelectRoot\<close> when the driver is run on a concrete
  graph: it selects the root once and returns the replacement, or the root itself when
  Select returns NULL.
\<close>

definition select_once ::
  "Enums \<Rightarrow> (SDOperand \<Rightarrow> ISel \<Rightarrow> SDNode option \<times> ISel) \<Rightarrow> bool \<Rightarrow>
   SDOperand \<Rightarrow> ISel \<Rightarrow> SDOperand \<times> ISel" where
  "select_once E SelectCode NDEBUG R st =
     (case Select E SelectCode NDEBUG R st of
        Inl e \<Rightarrow> (R, st)
      | Inr (None, st') \<Rightarrow> (R, st')
      | Inr (Some n, st') \<Rightarrow> (SDOperand n 0, st'))"

text \<open>
  Stand-ins for the graph's \<^verbatim>\<open>RemoveDeadNodes\<close> and for the scheduler on a concrete
  graph: the first keeps the root's node and the nodes the root's node reads, the second
  emits the list of nodes that are left.
\<close>

definition sample_RemoveDeadNodes :: "SelectionDAG \<Rightarrow> SelectionDAG" where
  "sample_RemoveDeadNodes SD =
     SD\<lparr>AllNodes := filter (\<lambda>n. n = Val (Root SD) \<or> n \<in> Val ` set (OperandList (Val (Root SD))))
                         (AllNodes SD)\<rparr>"

definition sample_emit :: "SelectionDAG \<Rightarrow> SDNode list" where
  "sample_emit SD = AllNodes SD"

section \<open>Facts about the enumerators\<close>

lemma wf_sample: "wf_enums sample_enums"
  by (simp add: wf_enums_def builtin_ops_def sample_enums_def)

lemma sample_values:
  "ISD_FrameIndex sample_enums = 1" "ISD_TargetFrameIndex sample_enums = 2"
  "ISD_Constant sample_enums = 3" "ISD_TargetConstant sample_enums = 4"
  "ISD_TargetExternalSymbol sample_enums = 5" "ISD_TargetGlobalAddress sample_enums = 6"
  "ISD_ADD sample_enums = 7"
  "ISD_MULHS sample_enums = 8" "ISD_MULHU sample_enums = 9" "ISD_SDIV sample_enums = 10"
  "ISD_UDIV sample_enums = 11" "ISD_SREM sample_enums = 12" "ISD_UREM sample_enums = 13"
  "ISD_BUILTIN_OP_END sample_enums = 100" "MipsISD_FIRST_NUMBER sample_enums = 200"
  "Mips_MULT sample_enums = 20" "Mips_MULTu sample_enums = 21" "Mips_DIV sample_enums = 22"
  "Mips_DIVu sample_enums = 23" "Mips_MFHI sample_enums = 24" "Mips_MFLO sample_enums = 25"
  by (simp_all add: sample_enums_def)

lemma special_below_end:
  assumes "wf_enums E" and "Opc \<in> set (special_ops E)"
  shows "\<not> (ISD_BUILTIN_OP_END E \<le> Opc \<and> Opc < MipsISD_FIRST_NUMBER E)"
  using assms by (auto simp: wf_enums_def builtin_ops_def special_ops_def)

lemma special_neq:
  assumes "wf_enums E"
  shows "ISD_MULHU E \<noteq> ISD_MULHS E"
    and "ISD_SDIV E \<noteq> ISD_MULHS E" and "ISD_SDIV E \<noteq> ISD_MULHU E"
    and "ISD_UDIV E \<noteq> ISD_MULHS E" and "ISD_UDIV E \<noteq> ISD_MULHU E"
    and "ISD_UDIV E \<noteq> ISD_SDIV E"
    and "ISD_SREM E \<noteq> ISD_MULHS E" and "ISD_SREM E \<noteq> ISD_MULHU E"
    and "ISD_SREM E \<noteq> ISD_SDIV E" and "ISD_SREM E \<noteq> ISD_UDIV E"
    and "ISD_UREM E \<noteq> ISD_MULHS E" and "ISD_UREM E \<noteq> ISD_MULHU E"
    and "ISD_UREM E \<noteq> ISD_SDIV E" and "ISD_UREM E \<noteq> ISD_UDIV E"
    and "ISD_UREM E \<noteq> ISD_SREM E"
  using assms by (auto simp: wf_enums_def builtin_ops_def)

lemma addr_neq:
  assumes "wf_enums E"
  shows "ISD_TargetExternalSymbol E \<noteq> ISD_FrameIndex E"
    and "ISD_TargetExternalSymbol E \<noteq> ISD_TargetFrameIndex E"
    and "ISD_TargetGlobalAddress E \<noteq> ISD_FrameIndex E"
    and "ISD_TargetGlobalAddress E \<noteq> ISD_TargetFrameIndex E"
    and "ISD_ADD E \<noteq> ISD_FrameIndex E"
    and "ISD_ADD E \<noteq> ISD_TargetFrameIndex E"
    and "ISD_ADD E \<noteq> ISD_TargetExternalSymbol E"
    and "ISD_ADD E \<noteq> ISD_TargetGlobalAddress E"
  using assms by (auto simp: wf_enums_def builtin_ops_def)

text \<open>With distinct enumerators the choices of the switch are the rows of the spec's table.\<close>

lemma table_values:
  assumes wf: "wf_enums E"
  shows "producer_of E (ISD_MULHS E) = Mips_MULT E" "consumer_of E (ISD_MULHS E) = Mips_MFHI E"
    "producer_of E (ISD_MULHU E) = Mips_MULTu E" "consumer_of E (ISD_MULHU E) = Mips_MFHI E"
    "producer_of E (ISD_SDIV E) = Mips_DIV E" "consumer_of E (ISD_SDIV E) = Mips_MFLO E"
    "producer_of E (ISD_UDIV E) = Mips_DIVu E" "consumer_of E (ISD_UDIV E) = Mips_MFLO E"
    "producer_of E (ISD_SREM E) = Mips_DIV E" "consumer_of E (ISD_SREM E) = Mips_MFHI E"
    "producer_of E (ISD_UREM E) = Mips_DIVu E" "consumer_of E (ISD_UREM E) = Mips_MFHI E"
  by (simp_all add: special_neq [OF wf] special_neq [OF wf, THEN not_sym]
      producer_of_def consumer_of_def)

section \<open>The three ways through Select\<close>

lemma Select_custom:
  assumes "ISD_BUILTIN_OP_END E \<le> getOpcode (Val N) \<and>
           getOpcode (Val N) < MipsISD_FIRST_NUMBER E"
  shows "Select E SelectCode NDEBUG N st =
           Inr (None, epilogue NDEBUG ''== '' (Val N) (prologue NDEBUG (Val N) st))"
  using assms by (simp add: Select_def prologue_def epilogue_def Let_def)

lemma Select_special:
  assumes nc: "\<not> (ISD_BUILTIN_OP_END E \<le> getOpcode (Val N) \<and>
                  getOpcode (Val N) < MipsISD_FIRST_NUMBER E)"
    and opc: "getOpcode (Val N) \<in> set (special_ops E)"
  shows "Select E SelectCode NDEBUG N st =
           lowering E (getOpcode (Val N)) (Val N) (prologue NDEBUG (Val N) st)"
proof -
  have nc': "(ISD_BUILTIN_OP_END E \<le> getOpcode (Val N) \<and>
              getOpcode (Val N) < MipsISD_FIRST_NUMBER E) = False"
    using nc by simp
  have "getOpcode (Val N) = ISD_MULHS E \<or> getOpcode (Val N) = ISD_MULHU E \<or>
        getOpcode (Val N) = ISD_SDIV E \<or> getOpcode (Val N) = ISD_UDIV E \<or>
        getOpcode (Val N) = ISD_SREM E \<or> getOpcode (Val N) = ISD_UREM E"
    using opc by (simp add: special_ops_def)
  then consider
      (a) "getOpcode (Val N) = ISD_MULHS E"
    | (b) "getOpcode (Val N) \<noteq> ISD_MULHS E" "getOpcode (Val N) = ISD_MULHU E"
    | (c) "getOpcode (Val N) \<noteq> ISD_MULHS E" "getOpcode (Val N) \<noteq> ISD_MULHU E"
          "getOpcode (Val N) = ISD_SDIV E"
    | (d) "getOpcode (Val N) \<noteq> ISD_MULHS E" "getOpcode (Val N) \<noteq> ISD_MULHU E"
          "getOpcode (Val N) \<noteq> ISD_SDIV E" "getOpcode (Val N) = ISD_UDIV E"
    | (e) "getOpcode (Val N) \<noteq> ISD_MULHS E" "getOpcode (Val N) \<noteq> ISD_MULHU E"
          "getOpcode (Val N) \<noteq> ISD_SDIV E" "getOpcode (Val N) \<noteq> ISD_UDIV E"
          "getOpcode (Val N) = ISD_SREM E"
    | (f) "getOpcode (Val N) \<noteq> ISD_MULHS E" "getOpcode (Val N) \<noteq> ISD_MULHU E"
          "getOpcode (Val N) \<noteq> ISD_SDIV E" "getOpcode (Val N) \<noteq> ISD_UDIV E"
          "getOpcode (Val N) \<noteq> ISD_SREM E" "getOpcode (Val N) = ISD_UREM E"
    by blast
  then show ?thesis
  proof cases
    case a
    then show ?thesis
      unfolding Select_def Let_def nc' if_False lowering_def prologue_def [symmetric]
      by (simp add: producer_of_def consumer_of_def AddToISelQueue_def CurDAG_getTargetNode_def
          built_def Let_def split: sum.splits)
  next
    case b
    then show ?thesis
      unfolding Select_def Let_def nc' if_False lowering_def prologue_def [symmetric]
      by (simp add: producer_of_def consumer_of_def AddToISelQueue_def CurDAG_getTargetNode_def
          built_def Let_def split: sum.splits)
  next
    case c
    then show ?thesis
      unfolding Select_def Let_def nc' if_False lowering_def prologue_def [symmetric]
      by (simp add: producer_of_def consumer_of_def AddToISelQueue_def CurDAG_getTargetNode_def
          built_def Let_def split: sum.splits)
  next
    case d
    then show ?thesis
      unfolding Select_def Let_def nc' if_False lowering_def prologue_def [symmetric]
      by (simp add: producer_of_def consumer_of_def AddToISelQueue_def CurDAG_getTargetNode_def
          built_def Let_def split: sum.splits)
  next
    case e
    then show ?thesis
      unfolding Select_def Let_def nc' if_False lowering_def prologue_def [symmetric]
      by (simp add: producer_of_def consumer_of_def AddToISelQueue_def CurDAG_getTargetNode_def
          built_def Let_def split: sum.splits)
  next
    case f
    then show ?thesis
      unfolding Select_def Let_def nc' if_False lowering_def prologue_def [symmetric]
      by (simp add: producer_of_def consumer_of_def AddToISelQueue_def CurDAG_getTargetNode_def
          built_def Let_def split: sum.splits)
  qed
qed

lemma Select_default:
  assumes "\<not> (ISD_BUILTIN_OP_END E \<le> getOpcode (Val N) \<and>
              getOpcode (Val N) < MipsISD_FIRST_NUMBER E)"
    and "getOpcode (Val N) \<notin> set (special_ops E)"
  shows "Select E SelectCode NDEBUG N st =
           (let (ResNode, st2) = SelectCode N (prologue NDEBUG (Val N) st)
            in Inr (ResNode,
                    epilogue NDEBUG ''=> ''
                      (if ResNode = None \<or> ResNode = Some (Val N) then Val N else the ResNode)
                      st2))"
proof (cases "ISD_BUILTIN_OP_END E \<le> getOpcode (Val N)")
  case True
  with assms(1) have "\<not> getOpcode (Val N) < MipsISD_FIRST_NUMBER E" by simp
  with assms(2) show ?thesis
    by (simp add: Select_def prologue_def epilogue_def Let_def special_ops_def)
next
  case False
  with assms(2) show ?thesis
    by (simp add: Select_def prologue_def epilogue_def Let_def special_ops_def)
qed

text \<open>A special operation on a node with both operands present, under distinct enumerators.\<close>

lemma Select_lowered:
  assumes wf: "wf_enums E"
    and opc: "getOpcode (Val N) \<in> set (special_ops E)"
    and A: "getOperand (Val N) 0 = Inr A"
    and B: "getOperand (Val N) 1 = Inr B"
  shows "Select E SelectCode NDEBUG N st =
     Inr (Some (getTargetNode E (consumer_of E (getOpcode (Val N))) i32
                  [SDOperand (getTargetNode E (producer_of E (getOpcode (Val N))) Flag [A, B]) 0]),
          built (getTargetNode E (producer_of E (getOpcode (Val N))) Flag [A, B])
                (getTargetNode E (consumer_of E (getOpcode (Val N))) i32
                  [SDOperand (getTargetNode E (producer_of E (getOpcode (Val N))) Flag [A, B]) 0])
                A B (prologue NDEBUG (Val N) st))"
  using A B
  by (simp add: Select_special [OF special_below_end [OF wf opc] opc] lowering_def Let_def)

lemma returned_special:
  assumes wf: "wf_enums E"
    and opc: "getOpcode (Val N) \<in> set (special_ops E)"
    and A: "getOperand (Val N) 0 = Inr A"
    and B: "getOperand (Val N) 1 = Inr B"
  shows "returned_node (Select E SelectCode NDEBUG N st) =
     Some (two_instruction_chain E (producer_of E (getOpcode (Val N)))
             (consumer_of E (getOpcode (Val N))) A B)"
  by (simp add: Select_lowered [OF wf opc A B] returned_node_def two_instruction_chain_def)

lemma binop_operands:
  "getOperand (Val (binop Opc)) 0 = Inr (leaf 0)" "getOperand (Val (binop Opc)) 1 = Inr (leaf 1)"
  "getOpcode (Val (binop Opc)) = Opc"
  by (simp_all add: binop_def getOperand_def)

text \<open>A flag result is never one of the operands of the node that yields it.\<close>

lemma flag_not_own_operand:
  "SDOperand (getTargetNode E Opc VT [A, B]) 0 \<noteq> A"
  "SDOperand (getTargetNode E Opc VT [A, B]) 0 \<noteq> B"
proof -
  have a: "size A < size (SDOperand (getTargetNode E Opc VT [A, B]) 0)"
    by (simp add: getTargetNode_def)
  show "SDOperand (getTargetNode E Opc VT [A, B]) 0 \<noteq> A"
  proof
    assume "SDOperand (getTargetNode E Opc VT [A, B]) 0 = A"
    then have "size (SDOperand (getTargetNode E Opc VT [A, B]) 0) = size A"
      by (rule arg_cong)
    with a show False by linarith
  qed
  have b: "size B < size (SDOperand (getTargetNode E Opc VT [A, B]) 0)"
    by (simp add: getTargetNode_def)
  show "SDOperand (getTargetNode E Opc VT [A, B]) 0 \<noteq> B"
  proof
    assume "SDOperand (getTargetNode E Opc VT [A, B]) 0 = B"
    then have "size (SDOperand (getTargetNode E Opc VT [A, B]) 0) = size B"
      by (rule arg_cong)
    with b show False by linarith
  qed
qed

section \<open>Special-op lowering\<close>

text \<open>
  Claim C1. For a node with one of the six special opcodes and operands (A, B), Select
  returns the consumer of the two-instruction chain of the spec's table: MULT then MFHI
  for mulh-signed, MULTu then MFHI for mulh-unsigned, DIV then MFLO for div-signed,
  DIVu then MFLO for div-unsigned, DIV then MFHI for rem-signed, DIVu then MFHI for
  rem-unsigned; the producer reads A and B.
\<close>

theorem C1_special_op_chain:
  assumes wf: "wf_enums E"
    and A: "getOperand (Val N) 0 = Inr A"
    and B: "getOperand (Val N) 1 = Inr B"
  shows "(getOpcode (Val N) = ISD_MULHS E \<longrightarrow>
            returned_node (Select E SelectCode NDEBUG N st) =
              Some (two_instruction_chain E (Mips_MULT E) (Mips_MFHI E) A B)) \<and>
         (getOpcode (Val N) = ISD_MULHU E \<longrightarrow>
            returned_node (Select E SelectCode NDEBUG N st) =
              Some (two_instruction_chain E (Mips_MULTu E) (Mips_MFHI E) A B)) \<and>
         (getOpcode (Val N) = ISD_SDIV E \<longrightarrow>
            returned_node (Select E SelectCode NDEBUG N st) =
              Some (two_instruction_chain E (Mips_DIV E) (Mips_MFLO E) A B)) \<and>
         (getOpcode (Val N) = ISD_UDIV E \<longrightarrow>
            returned_node (Select E SelectCode NDEBUG N st) =
              Some (two_instruction_chain E (Mips_DIVu E) (Mips_MFLO E) A B)) \<and>
         (getOpcode (Val N) = ISD_SREM E \<longrightarrow>
            returned_node (Select E SelectCode NDEBUG N st) =
              Some (two_instruction_chain E (Mips_DIV E) (Mips_MFHI E) A B)) \<and>
         (getOpcode (Val N) = ISD_UREM E \<longrightarrow>
            returned_node (Select E SelectCode NDEBUG N st) =
              Some (two_instruction_chain E (Mips_DIVu E) (Mips_MFHI E) A B))"
proof (intro conjI impI)
  assume o: "getOpcode (Val N) = ISD_MULHS E"
  then have "getOpcode (Val N) \<in> set (special_ops E)" by (simp add: special_ops_def)
  from returned_special [OF wf this A B] show
    "returned_node (Select E SelectCode NDEBUG N st) =
       Some (two_instruction_chain E (Mips_MULT E) (Mips_MFHI E) A B)"
    by (simp add: o table_values [OF wf])
next
  assume o: "getOpcode (Val N) = ISD_MULHU E"
  then have "getOpcode (Val N) \<in> set (special_ops E)" by (simp add: special_ops_def)
  from returned_special [OF wf this A B] show
    "returned_node (Select E SelectCode NDEBUG N st) =
       Some (two_instruction_chain E (Mips_MULTu E) (Mips_MFHI E) A B)"
    by (simp add: o table_values [OF wf])
next
  assume o: "getOpcode (Val N) = ISD_SDIV E"
  then have "getOpcode (Val N) \<in> set (special_ops E)" by (simp add: special_ops_def)
  from returned_special [OF wf this A B] show
    "returned_node (Select E SelectCode NDEBUG N st) =
       Some (two_instruction_chain E (Mips_DIV E) (Mips_MFLO E) A B)"
    by (simp add: o table_values [OF wf])
next
  assume o: "getOpcode (Val N) = ISD_UDIV E"
  then have "getOpcode (Val N) \<in> set (special_ops E)" by (simp add: special_ops_def)
  from returned_special [OF wf this A B] show
    "returned_node (Select E SelectCode NDEBUG N st) =
       Some (two_instruction_chain E (Mips_DIVu E) (Mips_MFLO E) A B)"
    by (simp add: o table_values [OF wf])
next
  assume o: "getOpcode (Val N) = ISD_SREM E"
  then have "getOpcode (Val N) \<in> set (special_ops E)" by (simp add: special_ops_def)
  from returned_special [OF wf this A B] show
    "returned_node (Select E SelectCode NDEBUG N st) =
       Some (two_instruction_chain E (Mips_DIV E) (Mips_MFHI E) A B)"
    by (simp add: o table_values [OF wf])
next
  assume o: "getOpcode (Val N) = ISD_UREM E"
  then have "getOpcode (Val N) \<in> set (special_ops E)" by (simp add: special_ops_def)
  from returned_special [OF wf this A B] show
    "returned_node (Select E SelectCode NDEBUG N st) =
       Some (two_instruction_chain E (Mips_DIVu E) (Mips_MFHI E) A B)"
    by (simp add: o table_values [OF wf])
qed

theorem C1_special_op_chain_witness:
  "wf_enums sample_enums \<and>
   returned_node (Select sample_enums no_match False (binop 8) st0) =
     Some (two_instruction_chain sample_enums 20 24 (leaf 0) (leaf 1)) \<and>
   returned_node (Select sample_enums no_match False (binop 9) st0) =
     Some (two_instruction_chain sample_enums 21 24 (leaf 0) (leaf 1)) \<and>
   returned_node (Select sample_enums no_match False (binop 10) st0) =
     Some (two_instruction_chain sample_enums 22 25 (leaf 0) (leaf 1)) \<and>
   returned_node (Select sample_enums no_match False (binop 11) st0) =
     Some (two_instruction_chain sample_enums 23 25 (leaf 0) (leaf 1)) \<and>
   returned_node (Select sample_enums no_match False (binop 12) st0) =
     Some (two_instruction_chain sample_enums 22 24 (leaf 0) (leaf 1)) \<and>
   returned_node (Select sample_enums no_match False (binop 13) st0) =
     Some (two_instruction_chain sample_enums 23 24 (leaf 0) (leaf 1))"
  using
    C1_special_op_chain [OF wf_sample binop_operands(1) binop_operands(2),
      of 8 no_match False st0]
    C1_special_op_chain [OF wf_sample binop_operands(1) binop_operands(2),
      of 9 no_match False st0]
    C1_special_op_chain [OF wf_sample binop_operands(1) binop_operands(2),
      of 10 no_match False st0]
    C1_special_op_chain [OF wf_sample binop_operands(1) binop_operands(2),
      of 11 no_match False st0]
    C1_special_op_chain [OF wf_sample binop_operands(1) binop_operands(2),
      of 12 no_match False st0]
    C1_special_op_chain [OF wf_sample binop_operands(1) binop_operands(2),
      of 13 no_match False st0]
  by (simp add: wf_sample binop_operands(3) sample_values)

text \<open>
  Claim C5. A node whose opcode is at or above BUILTIN_OP_END and below
  MipsISD::FIRST_NUMBER makes Select return NULL. The test comes first: nothing is
  queued, nothing is built, the graph is as before, and the answer is the same
  whatever the fallback matcher is, since it is not consulted.
\<close>

theorem C5_custom_target_unchanged:
  assumes "ISD_BUILTIN_OP_END E \<le> getOpcode (Val N)"
    and "getOpcode (Val N) < MipsISD_FIRST_NUMBER E"
  shows "\<exists>st'. Select E SelectCode NDEBUG N st = Inr (None, st') \<and>
               CurDAG st' = CurDAG st \<and> calls st' = calls st \<and> Indent st' = Indent st \<and>
               (\<forall>Other. Select E Other NDEBUG N st = Inr (None, st'))"
  using assms by (simp add: Select_custom prologue_def epilogue_def)

theorem C5_custom_target_unchanged_witness:
  "\<exists>st'. Select sample_enums no_match False machine_node st0 = Inr (None, st') \<and>
          CurDAG st' = CurDAG st0 \<and> calls st' = calls st0 \<and> Indent st' = Indent st0 \<and>
          (\<forall>Other. Select sample_enums Other False machine_node st0 = Inr (None, st'))"
  using C5_custom_target_unchanged [of sample_enums machine_node no_match False st0]
  by (simp add: machine_node_def sample_values)

text \<open>
  Claim C6. In each special-op branch the journal grows by exactly four entries, in
  this order: the first operand queued, the second operand queued, the producer built,
  the consumer built. The producer reads the two operands, and no machine node built
  here uses an operand of the selected node that has not been queued before.
\<close>

theorem C6_operands_queued_first:
  assumes wf: "wf_enums E"
    and opc: "getOpcode (Val N) \<in> set (special_ops E)"
    and ops: "OperandList (Val N) = [A, B]"
  shows "\<exists>P C st'. Select E SelectCode NDEBUG N st = Inr (Some C, st') \<and>
           calls st' = calls st @ [Queued A, Queued B, Built P, Built C] \<and>
           OperandList P = [A, B] \<and>
           queued_first (OperandList (Val N)) [] (drop (length (calls st)) (calls st'))"
proof -
  have A: "getOperand (Val N) 0 = Inr A" and B: "getOperand (Val N) 1 = Inr B"
    using ops by (simp_all add: getOperand_def)
  show ?thesis
    by (simp add: Select_lowered [OF wf opc A B] built_def prologue_def ops
        flag_not_own_operand, simp add: getTargetNode_def)
qed

theorem C6_operands_queued_first_witness:
  "wf_enums sample_enums \<and>
   (\<exists>P C st'. Select sample_enums no_match False (binop 10) st0 = Inr (Some C, st') \<and>
      calls st' = calls st0 @ [Queued (leaf 0), Queued (leaf 1), Built P, Built C] \<and>
      OperandList P = [leaf 0, leaf 1] \<and>
      queued_first (OperandList (Val (binop 10))) [] (drop (length (calls st0)) (calls st')))"
  using C6_operands_queued_first [OF wf_sample, of "binop 10" "leaf 0" "leaf 1" no_match False st0]
  by (simp add: wf_sample special_ops_def sample_values binop_def)

text \<open>
  Claim C7. The producer built for a special operation has the single result type
  Flag; the consumer that Select returns has result 0 of the producer as its only
  operand, that operand is of type Flag, and the consumer's single result type is i32.
\<close>

theorem C7_flag_edge:
  assumes wf: "wf_enums E"
    and opc: "getOpcode (Val N) \<in> set (special_ops E)"
    and A: "getOperand (Val N) 0 = Inr A"
    and B: "getOperand (Val N) 1 = Inr B"
  shows "\<exists>P C st'. Select E SelectCode NDEBUG N st = Inr (Some C, st') \<and>
           calls st' = calls st @ [Queued A, Queued B, Built P, Built C] \<and>
           ValueList P = [Flag] \<and>
           OperandList C = [SDOperand P 0] \<and>
           getValueType (Val (SDOperand P 0)) (ResNo (SDOperand P 0)) = Flag \<and>
           ValueList C = [i32]"
  by (simp add: Select_lowered [OF wf opc A B] built_def prologue_def
      getTargetNode_def getValueType_def)

theorem C7_flag_edge_witness:
  "wf_enums sample_enums \<and>
   (\<exists>P C st'. Select sample_enums no_match False (binop 9) st0 = Inr (Some C, st') \<and>
      calls st' = calls st0 @ [Queued (leaf 0), Queued (leaf 1), Built P, Built C] \<and>
      ValueList P = [Flag] \<and>
      OperandList C = [SDOperand P 0] \<and>
      getValueType (Val (SDOperand P 0)) (ResNo (SDOperand P 0)) = Flag \<and>
      ValueList C = [i32])"
  using C7_flag_edge [OF wf_sample _ binop_operands(1) binop_operands(2), of 9 no_match False st0]
  by (simp add: wf_sample special_ops_def sample_values binop_operands(3))

text \<open>
  Claim C10. In a debug build (NDEBUG not defined) Select leaves Indent two higher
  than it found it when the node is a special operation (as a number, unless the 32-bit
  counter wraps), and leaves it as it found it for every other node: a node in the
  custom-target range, or a node given to the fallback matcher (which itself does not
  touch Indent).
\<close>

theorem C10_indent_leak:
  assumes dbg: "\<not> NDEBUG"
  shows "(wf_enums E \<and> getOpcode (Val N) \<in> set (special_ops E) \<and>
          getOperand (Val N) 0 = Inr A \<and> getOperand (Val N) 1 = Inr B \<longrightarrow>
            (\<exists>r st'. Select E SelectCode NDEBUG N st = Inr (r, st') \<and>
                     Indent st' = Indent st + 2 \<and>
                     (unat (Indent st) + 2 < 2 ^ 32 \<longrightarrow>
                        unat (Indent st') = unat (Indent st) + 2))) \<and>
         (getOpcode (Val N) \<notin> set (special_ops E) \<and>
          (\<forall>M s. Indent (snd (SelectCode M s)) = Indent s) \<longrightarrow>
            (\<exists>r st'. Select E SelectCode NDEBUG N st = Inr (r, st') \<and>
                     Indent st' = Indent st))"
proof (intro conjI impI)
  assume h: "wf_enums E \<and> getOpcode (Val N) \<in> set (special_ops E) \<and>
          getOperand (Val N) 0 = Inr A \<and> getOperand (Val N) 1 = Inr B"
  then have wf: "wf_enums E" and opc: "getOpcode (Val N) \<in> set (special_ops E)"
    and A: "getOperand (Val N) 0 = Inr A" and B: "getOperand (Val N) 1 = Inr B"
    by simp_all
  have nowrap: "unat (Indent st) + 2 < 2 ^ 32 \<longrightarrow> unat (Indent st + 2) = unat (Indent st) + 2"
    using unat_add_lem [of "Indent st" 2] by simp
  show "\<exists>r st'. Select E SelectCode NDEBUG N st = Inr (r, st') \<and> Indent st' = Indent st + 2 \<and>
          (unat (Indent st) + 2 < 2 ^ 32 \<longrightarrow> unat (Indent st') = unat (Indent st) + 2)"
    using dbg nowrap by (simp add: Select_lowered [OF wf opc A B] built_def prologue_def)
next
  assume h: "getOpcode (Val N) \<notin> set (special_ops E) \<and>
          (\<forall>M s. Indent (snd (SelectCode M s)) = Indent s)"
  then have ns: "getOpcode (Val N) \<notin> set (special_ops E)"
    and keep: "\<And>M s. Indent (snd (SelectCode M s)) = Indent s" by simp_all
  show "\<exists>r st'. Select E SelectCode NDEBUG N st = Inr (r, st') \<and> Indent st' = Indent st"
  proof (cases "ISD_BUILTIN_OP_END E \<le> getOpcode (Val N) \<and>
                getOpcode (Val N) < MipsISD_FIRST_NUMBER E")
    case True
    then show ?thesis
      using dbg by (simp add: Select_custom prologue_def epilogue_def)
  next
    case False
    obtain r s2 where sc: "SelectCode N (prologue NDEBUG (Val N) st) = (r, s2)"
      by (cases "SelectCode N (prologue NDEBUG (Val N) st)")
    have "Indent s2 = Indent (prologue NDEBUG (Val N) st)"
      using keep [of N "prologue NDEBUG (Val N) st"] sc by simp
    then have "Indent s2 = Indent st + 2" using dbg by (simp add: prologue_def)
    then show ?thesis
      using dbg sc by (simp add: Select_default [OF False ns] epilogue_def)
  qed
qed

theorem C10_indent_leak_witness:
  "wf_enums sample_enums \<and>
   (\<exists>r st'. Select sample_enums no_match False (binop 12) st0 = Inr (r, st') \<and>
             Indent st' = Indent st0 + 2 \<and> unat (Indent st') = unat (Indent st0) + 2) \<and>
   (\<exists>r st'. Select sample_enums no_match False machine_node st0 = Inr (r, st') \<and>
             Indent st' = Indent st0) \<and>
   (\<exists>r st'. Select sample_enums no_match False (add_node (leaf 0) (leaf 1)) st0 = Inr (r, st') \<and>
             Indent st' = Indent st0)"
  using C10_indent_leak [of False sample_enums "binop 12" "leaf 0" "leaf 1" no_match st0]
    C10_indent_leak [of False sample_enums machine_node "leaf 0" "leaf 1" no_match st0]
    C10_indent_leak [of False sample_enums "add_node (leaf 0) (leaf 1)" "leaf 0" "leaf 1"
      no_match st0]
  by (simp add: wf_sample special_ops_def sample_values binop_def getOperand_def
      machine_node_def add_node_def no_match_def st0_def)

section \<open>The address mode matcher\<close>

lemma SelectAddr_frame_index:
  assumes "FrameIndexSDNode_classof E (Val Addr)"
  shows "SelectAddr E Op Addr Offset Base =
           Inr \<lparr>ret = True, ref3 = getTargetConstant E 0 i32,
                ref4 = getTargetFrameIndex E (getIndex (Val Addr)) i32\<rparr>"
  using assms by (simp add: SelectAddr_def)

lemma SelectAddr_add:
  assumes wf: "wf_enums E"
    and opc: "getOpcode (Val Addr) = ISD_ADD E"
    and op0: "getOperand (Val Addr) 0 = Inr Op0"
    and op1: "getOperand (Val Addr) 1 = Inr Op1"
  shows "SelectAddr E Op Addr Offset Base =
     (if ConstantSDNode_classof E (Val Op1) \<and> Predicate_immSExt16 (Val Op1) then
        Inr \<lparr>ret = True, ref3 = getTargetConstant E (getValue (Val Op1)) i32,
             ref4 = (if FrameIndexSDNode_classof E (Val Op0)
                     then getTargetFrameIndex E (getIndex (Val Op0)) i32 else Op0)\<rparr>
      else Inr \<lparr>ret = True, ref3 = getTargetConstant E 0 i32, ref4 = Addr\<rparr>)"
  using opc op0 op1 addr_neq [OF wf]
  by (simp add: SelectAddr_def Let_def FrameIndexSDNode_classof_def)

lemma add_operands:
  "getOpcode (Val (add_node x y)) = ISD_ADD sample_enums"
  "getOperand (Val (add_node x y)) 0 = Inr x" "getOperand (Val (add_node x y)) 1 = Inr y"
  by (simp_all add: add_node_def getOperand_def)

lemma sample_node_facts:
  "FrameIndexSDNode_classof sample_enums (Val (frame_slot k))"
  "getIndex (Val (frame_slot k)) = k"
  "getValue (Val (const_node v)) = v"
  "ConstantSDNode_classof sample_enums (Val (const_node v))"
  "\<not> ConstantSDNode_classof sample_enums (Val (leaf n))"
  "\<not> FrameIndexSDNode_classof sample_enums (Val (leaf n))"
  "\<not> FrameIndexSDNode_classof sample_enums (Val (add_node x y))"
  "getOpcode (Val (leaf n)) \<noteq> ISD_ADD sample_enums"
  "getOpcode (Val (frame_slot k)) \<noteq> ISD_ADD sample_enums"
  by (simp_all add: FrameIndexSDNode_classof_def ConstantSDNode_classof_def frame_slot_def
      getIndex_def const_node_def getValue_def leaf_def add_node_def sample_values)

text \<open>
  The range test is the comparison of the value with its own low 16 bits sign-extended,
  at the width of the constant.
\<close>

lemma fits16_32:
  "(sint (w :: 32 word) = sint (ucast w :: 16 word)) \<longleftrightarrow>
     (- (2 ^ 15) \<le> sint w \<and> sint w < 2 ^ 15)"
proof -
  have "sint (ucast w :: 16 word) = signed_take_bit 15 (sint w)"
    by (simp add: sint_uint signed_take_bit_take_bit unsigned_ucast_eq
        take_bit_signed_take_bit min_def)
  moreover have "(signed_take_bit 15 (sint w) = sint w) \<longleftrightarrow>
      (- (2 ^ 15) \<le> sint w \<and> sint w < 2 ^ 15)"
    by (rule signed_take_bit_int_eq_self_iff)
  ultimately show ?thesis by auto
qed

lemma fits16_64:
  "(sint (w :: 64 word) = sint (ucast w :: 16 word)) \<longleftrightarrow>
     (- (2 ^ 15) \<le> sint w \<and> sint w < 2 ^ 15)"
proof -
  have "sint (ucast w :: 16 word) = signed_take_bit 15 (sint w)"
    by (simp add: sint_uint signed_take_bit_take_bit unsigned_ucast_eq
        take_bit_signed_take_bit min_def)
  moreover have "(signed_take_bit 15 (sint w) = sint w) \<longleftrightarrow>
      (- (2 ^ 15) \<le> sint w \<and> sint w < 2 ^ 15)"
    by (rule signed_take_bit_int_eq_self_iff)
  ultimately show ?thesis by auto
qed

lemma low16: "(ucast (ucast (v :: 64 word) :: 32 word) :: 16 word) = ucast v"
  by (rule bit_word_eqI) (auto simp: bit_ucast_iff)

lemma Predicate_immSExt16_casts:
  "Predicate_immSExt16 CN \<longleftrightarrow>
     (if getValueType CN 0 = i32
      then sint (ucast (getValue CN) :: 32 word) = sint (ucast (getValue CN) :: 16 word)
      else sint (getValue CN) = sint (ucast (getValue CN) :: 16 word))"
  using fits16_32 [of "ucast (getValue CN)"] fits16_64 [of "getValue CN"]
  by (simp add: Predicate_immSExt16_def signedValue_def low16)

text \<open>The spec's examples of the immediate range: 8 and 100 fit, 70000 does not.\<close>

lemma fits_100: "Predicate_immSExt16 (Val (const_node 100))"
  by (simp add: Predicate_immSExt16_def signedValue_def const_node_def getValue_def
      getValueType_def)

lemma fits_8: "Predicate_immSExt16 (Val (const_node 8))"
  by (simp add: Predicate_immSExt16_def signedValue_def const_node_def getValue_def
      getValueType_def)

lemma not_fits_70000: "\<not> Predicate_immSExt16 (Val (const_node 70000))"
  by (simp add: Predicate_immSExt16_def signedValue_def const_node_def getValue_def
      getValueType_def)

text \<open>
  Claim C2. For a frame-index address SelectAddr returns true; read in the order of
  the class declaration (third parameter Base, fourth parameter Offset) the outputs
  would be the target frame index and the constant 0. Run on frame slot 3 the function
  writes the constant 0 to the third parameter and the target frame index to the
  fourth: the parameter declared as Base receives the constant, the one declared as
  Offset receives the frame index.
\<close>

theorem C2_frame_index_declared_order:
  "SelectAddr sample_enums (leaf 0) (frame_slot 3) (leaf 1) (leaf 2) =
     Inr \<lparr>ret = True, ref3 = getTargetConstant sample_enums 0 i32,
          ref4 = getTargetFrameIndex sample_enums 3 i32\<rparr> \<and>
   declared_Base \<lparr>ret = True, ref3 = getTargetConstant sample_enums 0 i32,
                  ref4 = getTargetFrameIndex sample_enums 3 i32\<rparr>
     = getTargetConstant sample_enums 0 i32 \<and>
   declared_Offset \<lparr>ret = True, ref3 = getTargetConstant sample_enums 0 i32,
                    ref4 = getTargetFrameIndex sample_enums 3 i32\<rparr>
     = getTargetFrameIndex sample_enums 3 i32 \<and>
   getTargetConstant sample_enums 0 i32 \<noteq> getTargetFrameIndex sample_enums 3 i32"
  by (simp add: SelectAddr_frame_index sample_node_facts
      declared_Base_def declared_Offset_def getTargetConstant_def getTargetFrameIndex_def)

text \<open>
  Claim C3. On a well-formed address node (an addition has its two operands)
  SelectAddr returns, and it returns false exactly when the node's opcode is
  TargetExternalSymbol or TargetGlobalAddress.
\<close>

theorem C3_only_failure:
  assumes wf: "wf_enums E"
    and arity: "getOpcode (Val Addr) = ISD_ADD E \<longrightarrow> 2 \<le> length (OperandList (Val Addr))"
  shows "\<exists>r. SelectAddr E Op Addr Offset Base = Inr r \<and>
             (ret r = False \<longleftrightarrow>
                getOpcode (Val Addr) = ISD_TargetExternalSymbol E \<or>
                getOpcode (Val Addr) = ISD_TargetGlobalAddress E)"
proof (cases "FrameIndexSDNode_classof E (Val Addr)")
  case True
  then have "getOpcode (Val Addr) \<noteq> ISD_TargetExternalSymbol E"
    "getOpcode (Val Addr) \<noteq> ISD_TargetGlobalAddress E"
    using addr_neq [OF wf] by (auto simp: FrameIndexSDNode_classof_def)
  then show ?thesis by (simp add: SelectAddr_frame_index [OF True])
next
  case nfi: False
  show ?thesis
  proof (cases "getOpcode (Val Addr) = ISD_TargetExternalSymbol E \<or>
                getOpcode (Val Addr) = ISD_TargetGlobalAddress E")
    case True
    with nfi show ?thesis by (simp add: SelectAddr_def)
  next
    case nsym: False
    show ?thesis
    proof (cases "getOpcode (Val Addr) = ISD_ADD E")
      case True
      with arity have "2 \<le> length (OperandList (Val Addr))" by simp
      then have "getOperand (Val Addr) 1 = Inr (OperandList (Val Addr) ! 1)"
        "getOperand (Val Addr) 0 = Inr (OperandList (Val Addr) ! 0)"
        by (auto simp: getOperand_def)
      with nfi nsym True show ?thesis by (simp add: SelectAddr_def Let_def)
    next
      case False
      with nfi nsym show ?thesis by (simp add: SelectAddr_def Let_def)
    qed
  qed
qed

theorem C3_only_failure_witness:
  "wf_enums sample_enums \<and>
   (\<exists>r. SelectAddr sample_enums (leaf 0) external_symbol (leaf 1) (leaf 2) = Inr r \<and>
        ret r = False) \<and>
   (\<exists>r. SelectAddr sample_enums (leaf 0) (add_node (leaf 3) (const_node 8)) (leaf 1) (leaf 2) =
          Inr r \<and> ret r = True)"
  using C3_only_failure [OF wf_sample, of external_symbol "leaf 0" "leaf 1" "leaf 2"]
    C3_only_failure [OF wf_sample, of "add_node (leaf 3) (const_node 8)" "leaf 0" "leaf 1" "leaf 2"]
  by (simp add: wf_sample external_symbol_def add_node_def sample_values)

text \<open>
  Claim C4. For an addition whose second operand is a constant: if the constant fits
  the signed 16-bit range, SelectAddr returns true with Offset the target constant of
  that value and Base the target frame index when the first operand is a frame index,
  the first operand itself otherwise (also when the first operand is again an
  addition: no recursion); if the constant does not fit, it returns true with Base the
  whole addition and Offset the constant 0.
\<close>

theorem C4_add_constant:
  assumes wf: "wf_enums E"
    and opc: "getOpcode (Val Addr) = ISD_ADD E"
    and op0: "getOperand (Val Addr) 0 = Inr Op0"
    and op1: "getOperand (Val Addr) 1 = Inr Op1"
    and cn: "ConstantSDNode_classof E (Val Op1)"
  shows "\<exists>r. SelectAddr E Op Addr Offset Base = Inr r \<and> ret r \<and>
           (if Predicate_immSExt16 (Val Op1)
            then Offset_of r = getTargetConstant E (getValue (Val Op1)) i32 \<and>
                 Base_of r = (if FrameIndexSDNode_classof E (Val Op0)
                              then getTargetFrameIndex E (getIndex (Val Op0)) i32 else Op0) \<and>
                 (getOpcode (Val Op0) = ISD_ADD E \<longrightarrow> Base_of r = Op0)
            else Base_of r = Addr \<and> Offset_of r = getTargetConstant E 0 i32)"
  using cn addr_neq [OF wf]
  by (simp add: SelectAddr_add [OF wf opc op0 op1] Offset_of_def Base_of_def
      FrameIndexSDNode_classof_def)

theorem C4_add_constant_witness:
  "wf_enums sample_enums \<and>
   (\<exists>r. SelectAddr sample_enums (leaf 0) (add_node (frame_slot 2) (const_node 100))
           (leaf 1) (leaf 2) = Inr r \<and>
        ret r \<and> Offset_of r = getTargetConstant sample_enums 100 i32 \<and>
        Base_of r = getTargetFrameIndex sample_enums 2 i32) \<and>
   (\<exists>r. SelectAddr sample_enums (leaf 0) (add_node (leaf 3) (const_node 70000))
           (leaf 1) (leaf 2) = Inr r \<and>
        ret r \<and> Base_of r = add_node (leaf 3) (const_node 70000) \<and>
        Offset_of r = getTargetConstant sample_enums 0 i32) \<and>
   (\<exists>r. SelectAddr sample_enums (leaf 0)
           (add_node (add_node (leaf 3) (const_node 100)) (const_node 8))
           (leaf 1) (leaf 2) = Inr r \<and>
        ret r \<and> Offset_of r = getTargetConstant sample_enums 8 i32 \<and>
        Base_of r = add_node (leaf 3) (const_node 100))"
  using
    C4_add_constant [OF wf_sample add_operands [of "frame_slot 2" "const_node 100"]
      sample_node_facts(4), where Op = "leaf 0" and Offset = "leaf 1" and Base = "leaf 2"]
    C4_add_constant [OF wf_sample add_operands [of "leaf 3" "const_node 70000"]
      sample_node_facts(4), where Op = "leaf 0" and Offset = "leaf 1" and Base = "leaf 2"]
    C4_add_constant [OF wf_sample
      add_operands [of "add_node (leaf 3) (const_node 100)" "const_node 8"]
      sample_node_facts(4), where Op = "leaf 0" and Offset = "leaf 1" and Base = "leaf 2"]
  by (simp add: wf_sample fits_100 fits_8 not_fits_70000 add_operands(1) sample_node_facts)

text \<open>
  Claim C9. For an addition whose first operand is a constant (even one that fits the
  signed 16-bit range) and whose second operand is not a constant, SelectAddr does not
  fold: it returns true with Base the whole addition and Offset the constant 0.
\<close>

theorem C9_constant_first_not_folded:
  assumes wf: "wf_enums E"
    and opc: "getOpcode (Val Addr) = ISD_ADD E"
    and op0: "getOperand (Val Addr) 0 = Inr Op0"
    and cn0: "ConstantSDNode_classof E (Val Op0) \<and> Predicate_immSExt16 (Val Op0)"
    and op1: "getOperand (Val Addr) 1 = Inr Op1"
    and ncn1: "\<not> ConstantSDNode_classof E (Val Op1)"
  shows "\<exists>r. SelectAddr E Op Addr Offset Base = Inr r \<and> ret r \<and>
             Base_of r = Addr \<and> Offset_of r = getTargetConstant E 0 i32"
  using ncn1 by (simp add: SelectAddr_add [OF wf opc op0 op1] Offset_of_def Base_of_def)

theorem C9_constant_first_not_folded_witness:
  "wf_enums sample_enums \<and>
   (\<exists>r. SelectAddr sample_enums (leaf 0) (add_node (const_node 8) (leaf 3)) (leaf 1) (leaf 2) =
          Inr r \<and>
        ret r \<and> Base_of r = add_node (const_node 8) (leaf 3) \<and>
        Offset_of r = getTargetConstant sample_enums 0 i32)"
  using C9_constant_first_not_folded [OF wf_sample
      add_operands(1) [of "const_node 8" "leaf 3"] add_operands(2) _
      add_operands(3) sample_node_facts(5),
      where Op = "leaf 0" and Offset = "leaf 1" and Base = "leaf 2"]
  by (simp add: wf_sample sample_node_facts(4) fits_8)

section \<open>Select and the debug fields\<close>

lemma prologue_shape:
  "\<exists>i' d'. prologue NDEBUG Node (st\<lparr>Indent := i, DOUT := d\<rparr>) = st\<lparr>Indent := i', DOUT := d'\<rparr>"
proof (cases NDEBUG)
  case True
  then show ?thesis by (simp add: prologue_def) blast
next
  case False
  then have "prologue NDEBUG Node (st\<lparr>Indent := i, DOUT := d\<rparr>) =
      st\<lparr>Indent := i + 2, DOUT := d @ [Spaces i, Text ''Selecting: '', NodeDump Node, Newline]\<rparr>"
    by (simp add: prologue_def)
  then show ?thesis by blast
qed

lemma prologue_shape0:
  "\<exists>i' d'. prologue NDEBUG Node st = st\<lparr>Indent := i', DOUT := d'\<rparr>"
  using prologue_shape [where st = st and i = "Indent st" and d = "DOUT st"] by simp

lemma observable_lowering:
  "observable (lowering E Opc Node (st\<lparr>Indent := i, DOUT := d\<rparr>)) =
   observable (lowering E Opc Node st)"
  by (simp add: observable_def lowering_def built_def Let_def split: sum.splits)

lemma observable_epilogue:
  "observable (Inr (n, epilogue NDEBUG tag Node st)) = Inr (n, CurDAG st, calls st)"
  by (simp add: observable_def epilogue_def)

text \<open>
  What Select returns, the graph and the journal do not depend on the debug fields at
  entry, nor on whether the build has the debug blocks, as long as the same holds of
  the generated matcher.
\<close>

lemma Select_debug_insensitive:
  assumes sc: "debug_insensitive SelectCode"
  shows "observable (Select E SelectCode NDEBUG N (st\<lparr>Indent := i, DOUT := d\<rparr>)) =
         observable (Select E SelectCode NDEBUG' N st)"
proof -
  obtain i1 d1 where p1:
    "prologue NDEBUG (Val N) (st\<lparr>Indent := i, DOUT := d\<rparr>) = st\<lparr>Indent := i1, DOUT := d1\<rparr>"
    using prologue_shape by blast
  obtain i2 d2 where p2: "prologue NDEBUG' (Val N) st = st\<lparr>Indent := i2, DOUT := d2\<rparr>"
    using prologue_shape0 by blast
  show ?thesis
  proof (cases "ISD_BUILTIN_OP_END E \<le> getOpcode (Val N) \<and>
                getOpcode (Val N) < MipsISD_FIRST_NUMBER E")
    case True
    show ?thesis
      by (simp add: Select_custom [OF True] observable_epilogue p1 p2)
  next
    case nc: False
    show ?thesis
    proof (cases "getOpcode (Val N) \<in> set (special_ops E)")
      case True
      show ?thesis
        by (simp add: Select_special [OF nc True] p1 p2 observable_lowering)
    next
      case False
      obtain r1 s1 where a: "SelectCode N (st\<lparr>Indent := i1, DOUT := d1\<rparr>) = (r1, s1)"
        by (cases "SelectCode N (st\<lparr>Indent := i1, DOUT := d1\<rparr>)")
      obtain r2 s2 where b: "SelectCode N (st\<lparr>Indent := i2, DOUT := d2\<rparr>) = (r2, s2)"
        by (cases "SelectCode N (st\<lparr>Indent := i2, DOUT := d2\<rparr>)")
      obtain r0 s0 where c: "SelectCode N st = (r0, s0)"
        by (cases "SelectCode N st")
      from sc [unfolded debug_insensitive_def, rule_format,
          where M = N and s = st and i = i1 and d = d1]
      have e1: "r1 = r0" "CurDAG s1 = CurDAG s0" "calls s1 = calls s0"
        using a c by simp_all
      from sc [unfolded debug_insensitive_def, rule_format,
          where M = N and s = st and i = i2 and d = d2]
      have e2: "r2 = r0" "CurDAG s2 = CurDAG s0" "calls s2 = calls s0"
        using b c by simp_all
      show ?thesis
        by (simp add: Select_default [OF nc False] p1 p2 a b e1 e2 observable_epilogue)
    qed
  qed
qed

lemma select_once_observable:
  "fst (select_once E SelectCode NDEBUG R st) =
     (case observable (Select E SelectCode NDEBUG R st) of
        Inl e \<Rightarrow> R | Inr (None, g, c) \<Rightarrow> R | Inr (Some n, g, c) \<Rightarrow> SDOperand n 0)"
  "CurDAG (snd (select_once E SelectCode NDEBUG R st)) =
     (case observable (Select E SelectCode NDEBUG R st) of
        Inl e \<Rightarrow> CurDAG st | Inr (n, g, c) \<Rightarrow> g)"
  by (simp_all add: select_once_def observable_def split: sum.splits option.splits prod.splits)

lemma select_once_insensitive:
  assumes sc: "debug_insensitive SelectCode"
  shows "fst (select_once E SelectCode NDEBUG R (st\<lparr>Indent := i, DOUT := d\<rparr>)) =
           fst (select_once E SelectCode NDEBUG R st) \<and>
         CurDAG (snd (select_once E SelectCode NDEBUG R (st\<lparr>Indent := i, DOUT := d\<rparr>))) =
           CurDAG (snd (select_once E SelectCode NDEBUG R st))"
  by (simp add: select_once_observable Select_debug_insensitive [OF sc, where NDEBUG' = NDEBUG]
      split: sum.splits)

lemma no_match_insensitive: "debug_insensitive no_match"
  by (simp add: debug_insensitive_def no_match_def)

section \<open>The selection driver\<close>

lemma driver_unfold:
  assumes "SelectRoot (getRoot (CurDAG st)) (trace_begin NDEBUG st) = (NewRoot, st2)"
  shows "fst (InstructionSelectBasicBlock SelectRoot RemoveDeadNodes ScheduleAndEmitDAG NDEBUG st) =
           ScheduleAndEmitDAG (RemoveDeadNodes (setRoot NewRoot (CurDAG st2)))"
    and "CurDAG (snd (InstructionSelectBasicBlock SelectRoot RemoveDeadNodes ScheduleAndEmitDAG
                        NDEBUG st)) =
           RemoveDeadNodes (setRoot NewRoot (CurDAG st2))"
    and "calls (snd (InstructionSelectBasicBlock SelectRoot RemoveDeadNodes ScheduleAndEmitDAG
                       NDEBUG st)) =
           calls st2"
  using assms
  by (simp_all add: InstructionSelectBasicBlock_def trace_begin_def Let_def split: if_splits)

text \<open>
  Claim C8. InstructionSelectBasicBlock calls SelectRoot on the graph's root (the
  tracing before it changes neither graph nor journal), installs the root it gets
  back, runs RemoveDeadNodes on the graph with the new root, and gives the outcome of
  that to ScheduleAndEmitDAG. When SelectRoot's root and graph do not depend on the
  debug fields, the build with the tracing and the build without it emit the same and
  leave the same graph.
\<close>

theorem C8_driver_order:
  "(\<exists>NewRoot st2.
      SelectRoot (getRoot (CurDAG st)) (trace_begin NDEBUG st) = (NewRoot, st2) \<and>
      CurDAG (trace_begin NDEBUG st) = CurDAG st \<and>
      calls (trace_begin NDEBUG st) = calls st \<and>
      getRoot (setRoot NewRoot (CurDAG st2)) = NewRoot \<and>
      fst (InstructionSelectBasicBlock SelectRoot RemoveDeadNodes ScheduleAndEmitDAG NDEBUG st) =
        ScheduleAndEmitDAG (RemoveDeadNodes (setRoot NewRoot (CurDAG st2))) \<and>
      CurDAG (snd (InstructionSelectBasicBlock SelectRoot RemoveDeadNodes ScheduleAndEmitDAG NDEBUG st)) =
        RemoveDeadNodes (setRoot NewRoot (CurDAG st2)) \<and>
      calls (snd (InstructionSelectBasicBlock SelectRoot RemoveDeadNodes ScheduleAndEmitDAG NDEBUG st)) = calls st2) \<and>
   ((\<forall>r s i d.
        fst (SelectRoot r (s\<lparr>Indent := i, DOUT := d\<rparr>)) = fst (SelectRoot r s) \<and>
        CurDAG (snd (SelectRoot r (s\<lparr>Indent := i, DOUT := d\<rparr>))) =
          CurDAG (snd (SelectRoot r s))) \<longrightarrow>
      fst (InstructionSelectBasicBlock SelectRoot RemoveDeadNodes ScheduleAndEmitDAG False st) =
        fst (InstructionSelectBasicBlock SelectRoot RemoveDeadNodes ScheduleAndEmitDAG True st) \<and>
      CurDAG (snd (InstructionSelectBasicBlock SelectRoot RemoveDeadNodes ScheduleAndEmitDAG False st)) =
        CurDAG (snd (InstructionSelectBasicBlock SelectRoot RemoveDeadNodes ScheduleAndEmitDAG True st)))"
proof (intro conjI impI)
  obtain NewRoot st2 where
    sr: "SelectRoot (getRoot (CurDAG st)) (trace_begin NDEBUG st) = (NewRoot, st2)"
    by (cases "SelectRoot (getRoot (CurDAG st)) (trace_begin NDEBUG st)")
  have tb: "CurDAG (trace_begin NDEBUG st) = CurDAG st" "calls (trace_begin NDEBUG st) = calls st"
    by (simp_all add: trace_begin_def)
  have gr: "getRoot (setRoot NewRoot (CurDAG st2)) = NewRoot"
    by (simp add: getRoot_def setRoot_def)
  show "\<exists>NewRoot st2.
      SelectRoot (getRoot (CurDAG st)) (trace_begin NDEBUG st) = (NewRoot, st2) \<and>
      CurDAG (trace_begin NDEBUG st) = CurDAG st \<and>
      calls (trace_begin NDEBUG st) = calls st \<and>
      getRoot (setRoot NewRoot (CurDAG st2)) = NewRoot \<and>
      fst (InstructionSelectBasicBlock SelectRoot RemoveDeadNodes ScheduleAndEmitDAG NDEBUG st) =
        ScheduleAndEmitDAG (RemoveDeadNodes (setRoot NewRoot (CurDAG st2))) \<and>
      CurDAG (snd (InstructionSelectBasicBlock SelectRoot RemoveDeadNodes ScheduleAndEmitDAG NDEBUG st)) =
        RemoveDeadNodes (setRoot NewRoot (CurDAG st2)) \<and>
      calls (snd (InstructionSelectBasicBlock SelectRoot RemoveDeadNodes ScheduleAndEmitDAG NDEBUG st)) = calls st2"
    using sr tb gr
      driver_unfold [where SelectRoot = SelectRoot and st = st and NDEBUG = NDEBUG
        and RemoveDeadNodes = RemoveDeadNodes and ScheduleAndEmitDAG = ScheduleAndEmitDAG, OF sr]
    by (intro exI [of _ NewRoot] exI [of _ st2]) simp
next
  assume ins: "\<forall>r s i d.
        fst (SelectRoot r (s\<lparr>Indent := i, DOUT := d\<rparr>)) = fst (SelectRoot r s) \<and>
        CurDAG (snd (SelectRoot r (s\<lparr>Indent := i, DOUT := d\<rparr>))) =
          CurDAG (snd (SelectRoot r s))"
  have tbF: "trace_begin False st =
      st\<lparr>Indent := 0, DOUT := DOUT st @
                 [BlockDump, Text ''===== Instruction selection begins:'', Newline]\<rparr>"
    by (simp add: trace_begin_def)
  have tbT: "trace_begin True st = st" by (simp add: trace_begin_def)
  obtain r1 s1 where a: "SelectRoot (getRoot (CurDAG st)) (trace_begin False st) = (r1, s1)"
    by (cases "SelectRoot (getRoot (CurDAG st)) (trace_begin False st)")
  obtain r2 s2 where b: "SelectRoot (getRoot (CurDAG st)) (trace_begin True st) = (r2, s2)"
    by (cases "SelectRoot (getRoot (CurDAG st)) (trace_begin True st)")
  from ins [rule_format, where r = "getRoot (CurDAG st)" and s = st and i = 0
      and d = "DOUT st @ [BlockDump, Text ''===== Instruction selection begins:'', Newline]"]
  have eq: "r1 = r2" "CurDAG s1 = CurDAG s2"
    using a b by (simp_all add: tbF tbT)
  show "fst (InstructionSelectBasicBlock SelectRoot RemoveDeadNodes ScheduleAndEmitDAG False st) =
        fst (InstructionSelectBasicBlock SelectRoot RemoveDeadNodes ScheduleAndEmitDAG True st)"
    by (simp add: eq
        driver_unfold(1) [where SelectRoot = SelectRoot and st = st and NDEBUG = False, OF a]
        driver_unfold(1) [where SelectRoot = SelectRoot and st = st and NDEBUG = True, OF b])
  show "CurDAG (snd (InstructionSelectBasicBlock SelectRoot RemoveDeadNodes ScheduleAndEmitDAG False st)) =
        CurDAG (snd (InstructionSelectBasicBlock SelectRoot RemoveDeadNodes ScheduleAndEmitDAG True st))"
    by (simp add: eq
        driver_unfold(2) [where SelectRoot = SelectRoot and st = st and NDEBUG = False, OF a]
        driver_unfold(2) [where SelectRoot = SelectRoot and st = st and NDEBUG = True, OF b])
qed

theorem C8_driver_order_witness:
  "(\<exists>NewRoot st2.
      select_once sample_enums no_match False (getRoot (CurDAG st0)) (trace_begin False st0) =
        (NewRoot, st2) \<and>
      CurDAG (trace_begin False st0) = CurDAG st0 \<and>
      calls (trace_begin False st0) = calls st0 \<and>
      getRoot (setRoot NewRoot (CurDAG st2)) = NewRoot \<and>
      fst (InstructionSelectBasicBlock (select_once sample_enums no_match False)
              sample_RemoveDeadNodes sample_emit False st0) =
        sample_emit (sample_RemoveDeadNodes (setRoot NewRoot (CurDAG st2))) \<and>
      CurDAG (snd (InstructionSelectBasicBlock (select_once sample_enums no_match False)
              sample_RemoveDeadNodes sample_emit False st0)) =
        sample_RemoveDeadNodes (setRoot NewRoot (CurDAG st2)) \<and>
      calls (snd (InstructionSelectBasicBlock (select_once sample_enums no_match False)
              sample_RemoveDeadNodes sample_emit False st0)) = calls st2) \<and>
   fst (InstructionSelectBasicBlock (select_once sample_enums no_match False)
              sample_RemoveDeadNodes sample_emit False st0) =
     fst (InstructionSelectBasicBlock (select_once sample_enums no_match False)
              sample_RemoveDeadNodes sample_emit True st0) \<and>
   CurDAG (snd (InstructionSelectBasicBlock (select_once sample_enums no_match False)
              sample_RemoveDeadNodes sample_emit False st0)) =
     CurDAG (snd (InstructionSelectBasicBlock (select_once sample_enums no_match False)
              sample_RemoveDeadNodes sample_emit True st0))"
proof -
  have h: "\<forall>r s i d.
      fst (select_once sample_enums no_match False r (s\<lparr>Indent := i, DOUT := d\<rparr>)) =
        fst (select_once sample_enums no_match False r s) \<and>
      CurDAG (snd (select_once sample_enums no_match False r (s\<lparr>Indent := i, DOUT := d\<rparr>))) =
        CurDAG (snd (select_once sample_enums no_match False r s))"
    using select_once_insensitive [OF no_match_insensitive] by blast
  note c = C8_driver_order [where SelectRoot = "select_once sample_enums no_match False"
      and RemoveDeadNodes = sample_RemoveDeadNodes and ScheduleAndEmitDAG = sample_emit
      and NDEBUG = False and st = st0]
  from c [THEN conjunct1] c [THEN conjunct2, THEN mp, OF h] show ?thesis
    by (rule conjI)
qed

text \<open>
  The driver run on the graph whose root is a signed division of two leaves: what is
  emitted is the divide instruction followed by the move from the low half.
\<close>

lemma driver_on_sdiv:
  "fst (InstructionSelectBasicBlock (select_once sample_enums no_match False)
              sample_RemoveDeadNodes sample_emit False st0) =
     [getTargetNode sample_enums 22 Flag [leaf 0, leaf 1],
      two_instruction_chain sample_enums 22 25 (leaf 0) (leaf 1)]"
proof -
  have sel: "Select sample_enums no_match False (binop 10) (trace_begin False st0) =
      Inr (Some (two_instruction_chain sample_enums 22 25 (leaf 0) (leaf 1)),
           built (getTargetNode sample_enums 22 Flag [leaf 0, leaf 1])
             (two_instruction_chain sample_enums 22 25 (leaf 0) (leaf 1)) (leaf 0) (leaf 1)
             (prologue False (Val (binop 10)) (trace_begin False st0)))"
    using Select_lowered [OF wf_sample _ binop_operands(1) binop_operands(2),
        of 10 no_match False "trace_begin False st0"]
    by (simp add: binop_operands(3) special_ops_def sample_values table_values [OF wf_sample]
        two_instruction_chain_def producer_of_def consumer_of_def)
  have root: "getRoot (CurDAG st0) = binop 10" by (simp add: st0_def getRoot_def)
  have sr: "select_once sample_enums no_match False (getRoot (CurDAG st0)) (trace_begin False st0) =
      (SDOperand (two_instruction_chain sample_enums 22 25 (leaf 0) (leaf 1)) 0,
       built (getTargetNode sample_enums 22 Flag [leaf 0, leaf 1])
         (two_instruction_chain sample_enums 22 25 (leaf 0) (leaf 1)) (leaf 0) (leaf 1)
         (prologue False (Val (binop 10)) (trace_begin False st0)))"
    by (simp add: select_once_def root sel)
  note du = driver_unfold(1) [where SelectRoot = "select_once sample_enums no_match False"
      and st = st0 and NDEBUG = False and RemoveDeadNodes = sample_RemoveDeadNodes
      and ScheduleAndEmitDAG = sample_emit, OF sr]
  show ?thesis
    unfolding du
    by (simp add: sample_emit_def sample_RemoveDeadNodes_def setRoot_def built_def prologue_def
        trace_begin_def st0_def two_instruction_chain_def getTargetNode_def)
qed

end
